theory Spec2Isabelle
  imports Complex_Main "HOL-Library.Multiset"
begin

section \<open>Conventions of the embedding\<close>

text \<open>
  The development embeds the evaluation engine (\<^verbatim>\<open>evaluator.py\<close>), the quality
  controller (\<^verbatim>\<open>quality_control.py\<close>), the suggestion builder of the analytics engine
  (\<^verbatim>\<open>analytics.py\<close>) and the password generator (\<^verbatim>\<open>utils.py\<close>).

  \<^item> The database behind \<^verbatim>\<open>get_db_session()\<close> is an explicit record of tables; every
    table is the list of its rows in insertion order. An operation takes the database
    and returns the new one beside its result. An exception that leaves a
    \<^verbatim>\<open>with get_db_session()\<close> block rolls the session back: the result is the error
    alone and the database stays as it was.
  \<^item> \<^verbatim>\<open>Session\<close> is a \<^verbatim>\<open>scoped_session\<close>: every \<^verbatim>\<open>get_db_session()\<close> of a thread
    yields the same session object, and leaving a nested block commits and closes the
    session of the enclosing block too. Rows loaded before are then detached, and
    later assignments to their attributes are not written by a later commit.
  \<^item> A nullable column is an \<open>option\<close>. \<^verbatim>\<open>start_time\<close> is never null: every place that
    constructs an Evaluation passes it.
  \<^item> Python \<^verbatim>\<open>float\<close> values (ratings, fractions, stored scores) are read as exact
    real numbers. A submitted score is a finite number or NaN; an infinite score lies
    outside every scale and is skipped like any other out-of-range number.
  \<^item> The database is the default SQLite store, which binds a NaN parameter as NULL.
  \<^item> A \<^verbatim>\<open>datetime\<close> is the integer number of microseconds since the epoch, and the
    clock reading \<^verbatim>\<open>datetime.utcnow()\<close> is a parameter \<open>now\<close>.
  \<^item> A Python \<^verbatim>\<open>dict\<close> argument is the list of its items in iteration order.
  \<^item> Strings are lists of 8-bit characters; \<^verbatim>\<open>str.lower\<close> is modelled on ASCII letters.
\<close>

type_synonym datetime = int

datatype py_error = TypeError | UnboundLocalError | IntegrityError

section \<open>Data model (\<^verbatim>\<open>models.py\<close>)\<close>

record user =
  u_id :: int
  u_username :: string
  u_role :: string
  u_is_active :: bool

record content =
  c_id :: int
  c_title :: string
  c_text :: string
  c_domain :: string
  c_source_type :: string
  c_model_name :: "string option"

record evaluation_criterion =
  cr_id :: int
  cr_name :: string
  cr_scale_min :: int
  cr_scale_max :: int
  cr_domain :: "string option"

record evaluation =
  ev_id :: int
  ev_evaluator_id :: int
  ev_content_id :: int
  ev_start_time :: datetime
  ev_completion_time :: "datetime option"
  ev_duration_seconds :: "int option"
  ev_overall_rating :: "real option"
  ev_comments :: "string option"
  ev_passed_quality_checks :: "bool option"

record evaluation_score =
  es_id :: int
  es_evaluation_id :: int
  es_criterion_id :: int
  es_score :: real
  es_justification :: "string option"

record quality_check_question =
  q_id :: int
  q_question_text :: string
  q_correct_answer :: string
  q_domain :: "string option"
  q_active :: bool

record db =
  users :: "user list"
  contents :: "content list"
  criteria :: "evaluation_criterion list"
  evaluations :: "evaluation list"
  evaluation_scores :: "evaluation_score list"
  quality_check_questions :: "quality_check_question list"

text \<open>\<^verbatim>\<open>session.query(T).get(k)\<close>: the row of table \<open>T\<close> whose primary key is \<open>k\<close>.\<close>

definition get_user :: "db \<Rightarrow> int \<Rightarrow> user option" where
  "get_user d k = find (\<lambda>r. u_id r = k) (users d)"

definition get_content :: "db \<Rightarrow> int \<Rightarrow> content option" where
  "get_content d k = find (\<lambda>r. c_id r = k) (contents d)"

definition get_criterion :: "db \<Rightarrow> int \<Rightarrow> evaluation_criterion option" where
  "get_criterion d k = find (\<lambda>r. cr_id r = k) (criteria d)"

definition get_evaluation :: "db \<Rightarrow> int \<Rightarrow> evaluation option" where
  "get_evaluation d k = find (\<lambda>r. ev_id r = k) (evaluations d)"

definition get_question :: "db \<Rightarrow> int \<Rightarrow> quality_check_question option" where
  "get_question d k = find (\<lambda>r. q_id r = k) (quality_check_questions d)"

text \<open>The key an integer primary-key column gives to a newly inserted row: one more
  than the largest key in the table, 1 in an empty table.\<close>

definition next_id :: "int list \<Rightarrow> int" where
  "next_id ks = foldr max ks 0 + 1"

text \<open>Writing back the attributes of a loaded row: the first row carrying the key of
  \<open>new\<close> (the one \<open>get_evaluation\<close> returns) is replaced.\<close>

fun replace_evaluation :: "evaluation \<Rightarrow> evaluation list \<Rightarrow> evaluation list" where
  "replace_evaluation new [] = []"
| "replace_evaluation new (e # es) =
     (if ev_id e = ev_id new then new # es else e # replace_evaluation new es)"

section \<open>Python built-ins\<close>

definition digit_char :: "nat \<Rightarrow> char" where
  "digit_char n = char_of (48 + n)"

fun str_nat :: "nat \<Rightarrow> string" where
  "str_nat n = (if n < 10 then [digit_char n] else str_nat (n div 10) @ [digit_char (n mod 10)])"

declare str_nat.simps [simp del]

text \<open>\<^verbatim>\<open>str(i)\<close>, as an f-string renders an integer.\<close>

definition str_int :: "int \<Rightarrow> string" where
  "str_int i = (if i < 0 then CHR ''-'' # str_nat (nat (- i)) else str_nat (nat i))"

definition lower_char :: "char \<Rightarrow> char" where
  "lower_char c = (let n = (of_char c :: nat) in if 65 \<le> n \<and> n \<le> 90 then char_of (n + 32) else c)"

definition lower :: "string \<Rightarrow> string" where
  "lower s = map lower_char s"

text \<open>\<^verbatim>\<open>int(td.total_seconds())\<close> of a time difference given in microseconds: the
  whole seconds, truncated towards zero.\<close>

definition int_total_seconds :: "int \<Rightarrow> int" where
  "int_total_seconds us = (if 0 \<le> us then us div 1000000 else - ((- us) div 1000000))"

section \<open>Quality control: answer validation (\<^verbatim>\<open>quality_control.py\<close>)\<close>

text \<open>The loop of \<^verbatim>\<open>validate_quality_checks\<close> over \<^verbatim>\<open>answers.items()\<close>, with the running
  \<^verbatim>\<open>correct_count\<close>.\<close>

fun count_correct :: "db \<Rightarrow> (int \<times> string) list \<Rightarrow> nat \<Rightarrow> nat" where
  "count_correct d [] correct_count = correct_count"
| "count_correct d ((question_id, answer) # rest) correct_count =
     (case get_question d question_id of
        None \<Rightarrow> count_correct d rest correct_count
      | Some question \<Rightarrow>
          if lower (q_correct_answer question) = lower answer
          then count_correct d rest (correct_count + 1)
          else count_correct d rest correct_count)"

definition validate_quality_checks :: "db \<Rightarrow> (int \<times> string) list \<Rightarrow> bool" where
  "validate_quality_checks d answers =
     (if answers = [] then False
      else
        let correct_count = count_correct d answers 0;
            total_count = length answers;
            pass_threshold = (7 / 10 :: real)
        in if total_count > 0
           then real correct_count / real total_count \<ge> pass_threshold
           else False)"

section \<open>Evaluation engine (\<^verbatim>\<open>evaluator.py\<close>)\<close>

definition start_evaluation :: "db \<Rightarrow> datetime \<Rightarrow> int \<Rightarrow> int \<Rightarrow> int option \<times> db" where
  "start_evaluation d now user_id content_id =
     (if get_user d user_id = None \<or> get_content d content_id = None then (None, d)
      else
        case find (\<lambda>e. ev_evaluator_id e = user_id \<and> ev_content_id e = content_id) (evaluations d) of
          Some existing \<Rightarrow> (Some (ev_id existing), d)
        | None \<Rightarrow>
            let evaluation = \<lparr>ev_id = next_id (map ev_id (evaluations d)),
                               ev_evaluator_id = user_id,
                               ev_content_id = content_id,
                               ev_start_time = now,
                               ev_completion_time = None,
                               ev_duration_seconds = None,
                               ev_overall_rating = None,
                               ev_comments = None,
                               ev_passed_quality_checks = None\<rparr>
            in (Some (ev_id evaluation), d\<lparr>evaluations := evaluations d @ [evaluation]\<rparr>))"

text \<open>A score as \<^verbatim>\<open>submit_evaluation\<close> receives it. Every comparison with NaN is
  false.\<close>

datatype pyfloat = Finite real | NaN

definition float_less :: "pyfloat \<Rightarrow> real \<Rightarrow> bool" where
  "float_less score bound = (case score of Finite x \<Rightarrow> x < bound | NaN \<Rightarrow> False)"

definition float_greater :: "pyfloat \<Rightarrow> real \<Rightarrow> bool" where
  "float_greater score bound = (case score of Finite x \<Rightarrow> x > bound | NaN \<Rightarrow> False)"

text \<open>The loop of \<^verbatim>\<open>submit_evaluation\<close> over \<^verbatim>\<open>scores.items()\<close>: a pair is skipped
  when its criterion is unknown or when \<^verbatim>\<open>score < scale_min or score > scale_max\<close>;
  otherwise an EvaluationScore object (evaluation, criterion, score) is handed to
  \<^verbatim>\<open>session.add\<close>. The result is the list of the objects added, in order.\<close>

fun staged_scores :: "db \<Rightarrow> int \<Rightarrow> (int \<times> pyfloat) list \<Rightarrow> (int \<times> int \<times> pyfloat) list" where
  "staged_scores d evaluation_id [] = []"
| "staged_scores d evaluation_id ((criterion_id, score) # rest) =
     (case get_criterion d criterion_id of
        None \<Rightarrow> staged_scores d evaluation_id rest
      | Some criterion \<Rightarrow>
          if float_less score (real_of_int (cr_scale_min criterion)) \<or>
             float_greater score (real_of_int (cr_scale_max criterion))
          then staged_scores d evaluation_id rest
          else (evaluation_id, criterion_id, score) # staged_scores d evaluation_id rest)"

text \<open>Writing the added objects at \<^verbatim>\<open>session.commit()\<close>, in order. The column
  \<^verbatim>\<open>score\<close> is \<^verbatim>\<open>nullable=False\<close>; a NaN score reaches it as NULL and the insert
  raises \<^verbatim>\<open>IntegrityError\<close>.\<close>

fun insert_scores :: "db \<Rightarrow> (int \<times> int \<times> pyfloat) list \<Rightarrow> py_error + db" where
  "insert_scores d [] = Inr d"
| "insert_scores d ((evaluation_id, criterion_id, score) # rest) =
     (case score of
        NaN \<Rightarrow> Inl IntegrityError
      | Finite x \<Rightarrow>
          let score_record = \<lparr>es_id = next_id (map es_id (evaluation_scores d)),
                               es_evaluation_id = evaluation_id,
                               es_criterion_id = criterion_id,
                               es_score = x,
                               es_justification = None\<rparr>
          in insert_scores (d\<lparr>evaluation_scores := evaluation_scores d @ [score_record]\<rparr>) rest)"

text \<open>\<^verbatim>\<open>submit_evaluation\<close>. When \<^verbatim>\<open>quality_check_answers\<close> is not empty,
  \<^verbatim>\<open>validate_quality_checks\<close> runs its own \<^verbatim>\<open>with get_db_session()\<close> block, which
  commits and closes the shared session before the attributes of \<^verbatim>\<open>evaluation\<close> are
  assigned: the row is detached, and the final commit writes the score rows only.\<close>

definition submit_evaluation ::
  "db \<Rightarrow> datetime \<Rightarrow> int \<Rightarrow> (int \<times> pyfloat) list \<Rightarrow> real \<Rightarrow> string option \<Rightarrow>
   (int \<times> string) list option \<Rightarrow> py_error + ((bool \<times> string) \<times> db)" where
  "submit_evaluation d now evaluation_id scores overall_rating comments quality_check_answers =
     (case get_evaluation d evaluation_id of
        None \<Rightarrow> Inr ((False, ''Evaluation ID '' @ str_int evaluation_id @ '' not found''), d)
      | Some evaluation \<Rightarrow>
          if ev_completion_time evaluation \<noteq> None
          then Inr ((False, ''Evaluation ID '' @ str_int evaluation_id @ '' already completed''), d)
          else
            let duration = now - ev_start_time evaluation;
                session_closed =
                  (case quality_check_answers of
                     None \<Rightarrow> False
                   | Some answers \<Rightarrow> answers \<noteq> []);
                passed_checks =
                  (case quality_check_answers of
                     None \<Rightarrow> True
                   | Some answers \<Rightarrow> if answers = [] then True else validate_quality_checks d answers);
                evaluation' = evaluation\<lparr>ev_completion_time := Some now,
                                          ev_duration_seconds := Some (int_total_seconds duration),
                                          ev_overall_rating := Some overall_rating,
                                          ev_comments := comments,
                                          ev_passed_quality_checks := Some passed_checks\<rparr>;
                d' = (if session_closed then d
                      else d\<lparr>evaluations := replace_evaluation evaluation' (evaluations d)\<rparr>)
            in case insert_scores d' (staged_scores d' evaluation_id scores) of
                 Inl e \<Rightarrow> Inl e
               | Inr d'' \<Rightarrow> Inr ((True, ''Evaluation submitted successfully''), d''))"

text \<open>A (criterion, score) pair is valid when the criterion exists and the score is a
  number within its scale.\<close>

definition valid_score :: "db \<Rightarrow> int \<times> pyfloat \<Rightarrow> bool" where
  "valid_score d p =
     (case get_criterion d (fst p) of
        None \<Rightarrow> False
      | Some criterion \<Rightarrow>
          (case snd p of
             NaN \<Rightarrow> False
           | Finite x \<Rightarrow> real_of_int (cr_scale_min criterion) \<le> x \<and>
                         x \<le> real_of_int (cr_scale_max criterion)))"

text \<open>A NaN score for a stored criterion: neither valid nor skipped.\<close>

definition nan_score :: "db \<Rightarrow> int \<times> pyfloat \<Rightarrow> bool" where
  "nan_score d p = (get_criterion d (fst p) \<noteq> None \<and> snd p = NaN)"

text \<open>What a score row says, without its surrogate key.\<close>

definition score_triple :: "evaluation_score \<Rightarrow> int \<times> int \<times> real" where
  "score_triple r = (es_evaluation_id r, es_criterion_id r, es_score r)"

section \<open>Quality control: timing and flags (\<^verbatim>\<open>quality_control.py\<close>)\<close>

definition MIN_EVALUATION_TIME_SECONDS :: int where
  "MIN_EVALUATION_TIME_SECONDS = 60"

text \<open>\<^verbatim>\<open>check_evaluation_time\<close>. Comparing a null duration with a number raises
  \<^verbatim>\<open>TypeError\<close>.\<close>

definition check_evaluation_time :: "db \<Rightarrow> int \<Rightarrow> py_error + bool" where
  "check_evaluation_time d evaluation_id =
     (case get_evaluation d evaluation_id of
        None \<Rightarrow> Inr False
      | Some evaluation \<Rightarrow>
          if ev_completion_time evaluation = None then Inr False
          else
            case ev_duration_seconds evaluation of
              None \<Rightarrow> Inl TypeError
            | Some duration \<Rightarrow>
                if duration < MIN_EVALUATION_TIME_SECONDS then Inr False
                else
                  case get_content d (ev_content_id evaluation) of
                    None \<Rightarrow> Inr False
                  | Some content \<Rightarrow>
                      let text_length = length (c_text content);
                          expected_time = max (real_of_int MIN_EVALUATION_TIME_SECONDS) (real text_length / 10);
                          min_acceptable = expected_time * (1 / 2)
                      in if real_of_int duration < min_acceptable then Inr False else Inr True)"

record flagged_evaluation =
  fl_evaluation_id :: int
  fl_evaluator_id :: int
  fl_content_id :: int
  fl_flags :: "string list"
  fl_completion_time :: datetime

text \<open>The flags one evaluation collects in the body of the loop of
  \<^verbatim>\<open>flag_low_quality_evaluations\<close>. The duration test is
  \<^verbatim>\<open>evaluation.duration_seconds and evaluation.duration_seconds < MIN_EVALUATION_TIME_SECONDS\<close>:
  a null duration and the number 0 are both falsy.\<close>

definition evaluation_flags :: "db \<Rightarrow> evaluation \<Rightarrow> string list" where
  "evaluation_flags d evaluation =
     (let flags =
            (case ev_duration_seconds evaluation of
               None \<Rightarrow> []
             | Some duration \<Rightarrow>
                 if duration \<noteq> 0 \<and> duration < MIN_EVALUATION_TIME_SECONDS
                 then [''Fast completion: '' @ str_int duration @ '' seconds'']
                 else []);
          flags = flags @
            (if ev_passed_quality_checks evaluation = Some False then [''Failed quality checks''] else []);
          scores = filter (\<lambda>s. es_evaluation_id s = ev_id evaluation) (evaluation_scores d);
          flags = flags @
            (if length scores \<ge> 2
             then (case scores of
                     [] \<Rightarrow> []
                   | first # _ \<Rightarrow>
                       if list_all (\<lambda>s. es_score s = es_score first) scores
                       then [''Straight-line scoring''] else [])
             else [])
      in flags)"

text \<open>The loop over the evaluations; the query keeps those with a completion time.
  The record carries the completion time itself where the source renders it with
  \<^verbatim>\<open>isoformat()\<close>.\<close>

fun flag_loop :: "db \<Rightarrow> evaluation list \<Rightarrow> flagged_evaluation list \<Rightarrow> flagged_evaluation list" where
  "flag_loop d [] flagged_evaluations = flagged_evaluations"
| "flag_loop d (evaluation # rest) flagged_evaluations =
     (case ev_completion_time evaluation of
        None \<Rightarrow> flag_loop d rest flagged_evaluations
      | Some completion_time \<Rightarrow>
          let flags = evaluation_flags d evaluation
          in if flags \<noteq> []
             then flag_loop d rest (flagged_evaluations @
                    [\<lparr>fl_evaluation_id = ev_id evaluation,
                      fl_evaluator_id = ev_evaluator_id evaluation,
                      fl_content_id = ev_content_id evaluation,
                      fl_flags = flags,
                      fl_completion_time = completion_time\<rparr>])
             else flag_loop d rest flagged_evaluations)"

definition flag_low_quality_evaluations :: "db \<Rightarrow> flagged_evaluation list" where
  "flag_low_quality_evaluations d = flag_loop d (evaluations d) []"

section \<open>Password generation (\<^verbatim>\<open>utils.py\<close>)\<close>

text \<open>The random source is the sequence of raw draws: the \<open>k\<close>-th call of
  \<^verbatim>\<open>_randbelow(n)\<close> returns \<open>rng k mod n\<close>. \<^verbatim>\<open>random.choice(seq)\<close> is
  \<^verbatim>\<open>seq[_randbelow(len(seq))]\<close>, and \<^verbatim>\<open>random.shuffle\<close> walks \<open>i\<close> from the last
  index down to 1, swapping position \<open>i\<close> with position \<^verbatim>\<open>_randbelow(i + 1)\<close>.\<close>

type_synonym rng = "nat \<Rightarrow> nat"

definition ascii_lowercase :: string where
  "ascii_lowercase = ''abcdefghijklmnopqrstuvwxyz''"

definition ascii_uppercase :: string where
  "ascii_uppercase = ''ABCDEFGHIJKLMNOPQRSTUVWXYZ''"

definition digits :: string where
  "digits = ''0123456789''"

definition special :: string where
  "special = ''!@#$%^&*()-_=+[]{}|;:,.<>?''"

definition choice :: "rng \<Rightarrow> nat \<Rightarrow> 'a list \<Rightarrow> 'a" where
  "choice rng k seq = seq ! (rng k mod length seq)"

fun shuffle_from :: "rng \<Rightarrow> nat \<Rightarrow> nat \<Rightarrow> 'a list \<Rightarrow> 'a list" where
  "shuffle_from rng k 0 x = x"
| "shuffle_from rng k (Suc i) x =
     (let j = rng k mod (Suc i + 1)
      in shuffle_from rng (k + 1) i (x[Suc i := x ! j, j := x ! Suc i]))"

definition shuffle :: "rng \<Rightarrow> nat \<Rightarrow> 'a list \<Rightarrow> 'a list" where
  "shuffle rng k x = shuffle_from rng k (length x - 1) x"

definition generate_password :: "rng \<Rightarrow> int \<Rightarrow> string" where
  "generate_password rng pw_length =
     (let password = [choice rng 0 ascii_lowercase,
                      choice rng 1 ascii_uppercase,
                      choice rng 2 digits,
                      choice rng 3 special];
          all_chars = ascii_lowercase @ ascii_uppercase @ digits @ special;
          extra = nat (pw_length - 4);
          password = password @ map (\<lambda>i. choice rng (4 + i) all_chars) [0..<extra]
      in shuffle rng (4 + extra) password)"

section \<open>Improvement suggestions (\<^verbatim>\<open>analytics.py\<close>)\<close>

text \<open>A Python number at run time: \<^verbatim>\<open>isinstance(x, float)\<close> tells the two apart.\<close>

datatype number = Float_val real | Int_val int

record suggestion =
  sg_model_name :: string
  sg_domain :: "string option"
  sg_criterion :: string
  sg_current_score :: real
  sg_target_score :: number
  sg_priority :: string
  sg_suggestion :: string

definition criterion_tip :: "string \<Rightarrow> string" where
  "criterion_tip criterion =
     (if lower criterion = ''accuracy''
      then '' Enhance factual correctness by improving source validation and fact-checking processes.''
      else if lower criterion = ''coherence''
      then '' Improve logical flow and narrative consistency by strengthening contextual awareness across longer texts.''
      else if lower criterion = ''relevance''
      then '' Improve focus on provided topics by enhancing prompt understanding and topic adherence mechanisms.''
      else if lower criterion = ''creativity''
      then '' Increase originality by expanding the model's diverse expression patterns and reducing repetitive structures.''
      else if lower criterion = ''completeness''
      then '' Ensure comprehensive coverage of subjects by improving the model's thoroughness in addressing all aspects of a topic.''
      else if lower criterion = ''language_quality''
      then '' Enhance grammar, vocabulary and writing style by refining linguistic patterns and reducing awkward phrasing.''
      else [])"

text \<open>\<^verbatim>\<open>_create_improvement_suggestion\<close>. The parameter \<open>fmt2\<close> is the rendering
  \<^verbatim>\<open>f"{x:.2f}"\<close> of a float. The second statement of the body is
  \<^verbatim>\<open>target_formatted = f"{target_formatted:.2f}" if isinstance(target_score, float) else "N/A"\<close>:
  for a float target it reads the local \<^verbatim>\<open>target_formatted\<close> before any assignment to
  it, which raises \<^verbatim>\<open>UnboundLocalError\<close>.\<close>

definition create_improvement_suggestion ::
  "(real \<Rightarrow> string) \<Rightarrow> string \<Rightarrow> string option \<Rightarrow> string \<Rightarrow> real \<Rightarrow> number \<Rightarrow>
   py_error + suggestion" where
  "create_improvement_suggestion fmt2 model_name domain criterion current_score target_score =
     (let current_formatted = fmt2 current_score
      in case (case target_score of
                 Float_val t \<Rightarrow> Inl UnboundLocalError
               | Int_val t \<Rightarrow> Inr ''N/A'') of
           Inl e \<Rightarrow> Inl e
         | Inr target_formatted \<Rightarrow>
             let score_gap = (case target_score of
                                Float_val t \<Rightarrow> t - current_score
                              | Int_val t \<Rightarrow> 0);
                 priority = (if score_gap \<ge> 1 then ''high''
                             else if score_gap \<ge> 1 / 2 then ''medium''
                             else ''low'');
                 truthy_domain = (case domain of None \<Rightarrow> None
                                  | Some dm \<Rightarrow> if dm = [] then None else Some dm);
                 suggestion_text = ''Improve '' @ criterion @ '' '';
                 suggestion_text = suggestion_text @
                   (case truthy_domain of None \<Rightarrow> [] | Some dm \<Rightarrow> ''in '' @ dm @ '' content '');
                 suggestion_text = suggestion_text @
                   ''from '' @ current_formatted @ '' to '' @ target_formatted @ ''.'';
                 suggestion_text = suggestion_text @ criterion_tip criterion
             in Inr \<lparr>sg_model_name = model_name,
                     sg_domain = truthy_domain,
                     sg_criterion = criterion,
                     sg_current_score = current_score,
                     sg_target_score = target_score,
                     sg_priority = priority,
                     sg_suggestion = suggestion_text\<rparr>)"

record criterion_gap =
  cg_criterion :: string
  cg_model_score :: real
  cg_benchmark_score :: real
  cg_gap :: real

text \<open>The loop of \<^verbatim>\<open>identify_improvement_areas\<close> over \<^verbatim>\<open>results["criteria_to_improve"]\<close>.
  Both scores of a gap are averages \<^verbatim>\<open>sum(scores) / len(scores)\<close>, hence floats. An
  exception leaves the loop and the function.\<close>

fun general_suggestions ::
  "(real \<Rightarrow> string) \<Rightarrow> string \<Rightarrow> criterion_gap list \<Rightarrow> suggestion list \<Rightarrow>
   py_error + suggestion list" where
  "general_suggestions fmt2 model_name [] suggestions = Inr suggestions"
| "general_suggestions fmt2 model_name (criterion_gap # rest) suggestions =
     (if list_ex (\<lambda>s. sg_criterion s = cg_criterion criterion_gap) suggestions
      then general_suggestions fmt2 model_name rest suggestions
      else
        case create_improvement_suggestion fmt2 model_name None (cg_criterion criterion_gap)
               (cg_model_score criterion_gap) (Float_val (cg_benchmark_score criterion_gap)) of
          Inl e \<Rightarrow> Inl e
        | Inr suggestion \<Rightarrow> general_suggestions fmt2 model_name rest (suggestions @ [suggestion]))"

section \<open>Notions used in the statements\<close>

text \<open>The Evaluation rows of one (evaluator, content) pair.\<close>

definition pair_rows :: "db \<Rightarrow> int \<Rightarrow> int \<Rightarrow> evaluation list" where
  "pair_rows d user_id content_id =
     filter (\<lambda>e. ev_evaluator_id e = user_id \<and> ev_content_id e = content_id) (evaluations d)"

text \<open>An answer counts as correct when its question is stored and the texts are equal
  up to letter case.\<close>

definition answer_correct :: "db \<Rightarrow> int \<times> string \<Rightarrow> bool" where
  "answer_correct d p =
     (case get_question d (fst p) of
        None \<Rightarrow> False
      | Some question \<Rightarrow> lower (q_correct_answer question) = lower (snd p))"

definition correct_fraction :: "db \<Rightarrow> (int \<times> string) list \<Rightarrow> real" where
  "correct_fraction d answers =
     real (length (filter (answer_correct d) answers)) / real (length answers)"

definition unknown_question :: "db \<Rightarrow> int \<times> string \<Rightarrow> bool" where
  "unknown_question d p = (get_question d (fst p) = None)"

text \<open>The expected reading time of a content item, at 10 characters per second and
  at least the minimum evaluation time.\<close>

definition expected_time :: "content \<Rightarrow> real" where
  "expected_time content = max 60 (real (length (c_text content)) / 10)"

text \<open>The record that the loop of \<^verbatim>\<open>flag_low_quality_evaluations\<close> appends for a flagged
  evaluation.\<close>

definition flag_record :: "db \<Rightarrow> evaluation \<Rightarrow> datetime \<Rightarrow> flagged_evaluation" where
  "flag_record d e t = \<lparr>fl_evaluation_id = ev_id e, fl_evaluator_id = ev_evaluator_id e,
     fl_content_id = ev_content_id e, fl_flags = evaluation_flags d e, fl_completion_time = t\<rparr>"

section \<open>Sample data\<close>

text \<open>A small database: two users, two content items, two criteria on the scale 1 to 5,
  one pending and one completed evaluation of content 1.\<close>

definition demo_pending :: evaluation where
  "demo_pending = \<lparr>ev_id = 1, ev_evaluator_id = 1, ev_content_id = 1, ev_start_time = 0,
     ev_completion_time = None, ev_duration_seconds = None, ev_overall_rating = None,
     ev_comments = None, ev_passed_quality_checks = None\<rparr>"

definition demo_completed :: evaluation where
  "demo_completed = \<lparr>ev_id = 2, ev_evaluator_id = 2, ev_content_id = 1, ev_start_time = 0,
     ev_completion_time = Some 90000000, ev_duration_seconds = Some 90,
     ev_overall_rating = Some 4, ev_comments = None, ev_passed_quality_checks = Some True\<rparr>"

definition demo_db :: db where
  "demo_db =
     \<lparr>users = [\<lparr>u_id = 1, u_username = ''alice'', u_role = ''evaluator'', u_is_active = True\<rparr>,
               \<lparr>u_id = 2, u_username = ''bob'', u_role = ''evaluator'', u_is_active = True\<rparr>],
      contents = [\<lparr>c_id = 1, c_title = ''t1'', c_text = ''some text'', c_domain = ''news_articles'',
                    c_source_type = ''ai'', c_model_name = Some ''m''\<rparr>,
                  \<lparr>c_id = 2, c_title = ''t2'', c_text = ''other text'', c_domain = ''news_articles'',
                    c_source_type = ''human'', c_model_name = None\<rparr>],
      criteria = [\<lparr>cr_id = 1, cr_name = ''accuracy'', cr_scale_min = 1, cr_scale_max = 5,
                    cr_domain = None\<rparr>,
                  \<lparr>cr_id = 2, cr_name = ''coherence'', cr_scale_min = 1, cr_scale_max = 5,
                    cr_domain = None\<rparr>],
      evaluations = [demo_pending, demo_completed],
      evaluation_scores = [],
      quality_check_questions = []\<rparr>"

text \<open>Ten stored questions whose correct answer is Yes, and three answer sets.\<close>

definition quiz_question :: "int \<Rightarrow> quality_check_question" where
  "quiz_question i = \<lparr>q_id = i, q_question_text = ''Is the sky blue?'', q_correct_answer = ''Yes'',
     q_domain = None, q_active = True\<rparr>"

definition quiz_db :: db where
  "quiz_db = \<lparr>users = [], contents = [], criteria = [], evaluations = [], evaluation_scores = [],
     quality_check_questions = map quiz_question [1, 2, 3, 4, 5, 6, 7, 8, 9, 10]\<rparr>"

definition seven_right :: "(int \<times> string) list" where
  "seven_right = [(1, ''yes''), (2, ''YES''), (3, ''Yes''), (4, ''yes''), (5, ''yes''), (6, ''yes''),
     (7, ''yes''), (8, ''no''), (9, ''no''), (10, ''maybe'')]"

definition six_right :: "(int \<times> string) list" where
  "six_right = [(1, ''yes''), (2, ''YES''), (3, ''Yes''), (4, ''yes''), (5, ''yes''), (6, ''yes''),
     (7, ''no''), (8, ''no''), (9, ''no''), (10, ''maybe'')]"

definition one_unknown :: "(int \<times> string) list" where
  "one_unknown = [(1, ''yes''), (2, ''YES''), (77, ''yes'')]"

text \<open>A content item of 1000 characters with two completed evaluations, of 40 and of
  60 seconds.\<close>

definition timing_quick :: evaluation where
  "timing_quick = \<lparr>ev_id = 1, ev_evaluator_id = 1, ev_content_id = 1, ev_start_time = 0,
     ev_completion_time = Some 40000000, ev_duration_seconds = Some 40,
     ev_overall_rating = Some 3, ev_comments = None, ev_passed_quality_checks = Some True\<rparr>"

definition timing_steady :: evaluation where
  "timing_steady = \<lparr>ev_id = 2, ev_evaluator_id = 2, ev_content_id = 1, ev_start_time = 0,
     ev_completion_time = Some 60000000, ev_duration_seconds = Some 60,
     ev_overall_rating = Some 3, ev_comments = None, ev_passed_quality_checks = Some True\<rparr>"

definition timing_content :: content where
  "timing_content = \<lparr>c_id = 1, c_title = ''long'', c_text = replicate 1000 CHR ''x'',
     c_domain = ''news_articles'', c_source_type = ''ai'', c_model_name = Some ''m''\<rparr>"

definition timing_db :: db where
  "timing_db = \<lparr>users = [], contents = [timing_content], criteria = [],
     evaluations = [timing_quick, timing_steady], evaluation_scores = [],
     quality_check_questions = []\<rparr>"

text \<open>The sample database after evaluation 1 was submitted with the score 3 for
  criterion 1 and with an answer to a quality-check question.\<close>

definition answered_db :: db where
  "answered_db = demo_db\<lparr>evaluation_scores :=
     [\<lparr>es_id = 1, es_evaluation_id = 1, es_criterion_id = 1, es_score = 3,
       es_justification = None\<rparr>]\<rparr>"

text \<open>User 1 starts an evaluation of content 2 in the sample database and submits it
  0.4 seconds later: the stored duration is 0 seconds.\<close>

definition started_db :: db where
  "started_db = demo_db\<lparr>evaluations := [demo_pending, demo_completed,
     \<lparr>ev_id = 3, ev_evaluator_id = 1, ev_content_id = 2, ev_start_time = 5000000,
       ev_completion_time = None, ev_duration_seconds = None, ev_overall_rating = None,
       ev_comments = None, ev_passed_quality_checks = None\<rparr>]\<rparr>"

definition instant_evaluation :: evaluation where
  "instant_evaluation = \<lparr>ev_id = 3, ev_evaluator_id = 1, ev_content_id = 2, ev_start_time = 5000000,
     ev_completion_time = Some 5400000, ev_duration_seconds = Some 0,
     ev_overall_rating = Some 3, ev_comments = None, ev_passed_quality_checks = Some True\<rparr>"

definition instant_db :: db where
  "instant_db = demo_db\<lparr>evaluations := [demo_pending, demo_completed, instant_evaluation]\<rparr>"

text \<open>Two random sources for sample runs.\<close>

definition zero_rng :: rng where
  "zero_rng k = 0"

definition stride_rng :: rng where
  "stride_rng k = 7 * k + 3"

section \<open>Shared lemmas\<close>

lemma find_key_eq: "find (\<lambda>r. f r = k) xs = Some x \<Longrightarrow> f x = k"
  by (induction xs) (auto split: if_splits)

lemma get_evaluation_replace:
  "find (\<lambda>r. ev_id r = k) es = Some e \<Longrightarrow> ev_id new = k \<Longrightarrow>
   find (\<lambda>r. ev_id r = k) (replace_evaluation new es) = Some new"
  by (induction es) auto

section \<open>Submitting an evaluation\<close>

text \<open>
  Claim C4. Submitting an evaluation whose completion time is already set fails with
  the message "Evaluation ID <id> already completed" and leaves the whole database
  (the evaluation's fields and the score rows included) as it was; submitting an
  unknown evaluation id fails with "Evaluation ID <id> not found", again with no
  change to the database.
\<close>

theorem submit_evaluation_no_mutation:
  "(get_evaluation d evaluation_id = Some evaluation \<and> ev_completion_time evaluation \<noteq> None \<longrightarrow>
      submit_evaluation d now evaluation_id scores overall_rating comments answers =
        Inr ((False, ''Evaluation ID '' @ str_int evaluation_id @ '' already completed''), d)) \<and>
   (get_evaluation d evaluation_id = None \<longrightarrow>
      submit_evaluation d now evaluation_id scores overall_rating comments answers =
        Inr ((False, ''Evaluation ID '' @ str_int evaluation_id @ '' not found''), d))"
  by (auto simp: submit_evaluation_def)

theorem submit_evaluation_no_mutation_witness:
  "get_evaluation demo_db 2 = Some demo_completed \<and> ev_completion_time demo_completed \<noteq> None \<and>
   submit_evaluation demo_db 100000000 2 [(1, Finite 3)] 4 None None =
     Inr ((False, ''Evaluation ID 2 already completed''), demo_db) \<and>
   get_evaluation demo_db 7 = None \<and>
   submit_evaluation demo_db 100000000 7 [(1, Finite 3)] 4 None None =
     Inr ((False, ''Evaluation ID 7 not found''), demo_db)"
proof -
  have known: "get_evaluation demo_db 2 = Some demo_completed"
    by (simp add: get_evaluation_def demo_db_def demo_pending_def demo_completed_def)
  have completed: "ev_completion_time demo_completed \<noteq> None"
    by (simp add: demo_completed_def)
  have unknown: "get_evaluation demo_db 7 = None"
    by (simp add: get_evaluation_def demo_db_def demo_pending_def demo_completed_def)
  have digits: "str_int 2 = ''2''" "str_int 7 = ''7''"
    by code_simp+
  show ?thesis
    using submit_evaluation_no_mutation [of demo_db 2 demo_completed 100000000 "[(1, Finite 3)]" 4 None None]
      submit_evaluation_no_mutation [of demo_db 7 demo_completed 100000000 "[(1, Finite 3)]" 4 None None]
      known completed unknown digits
    by simp
qed

subsection \<open>The score loop and the commit\<close>

lemma staged_scores_filter:
  "staged_scores d k ps =
     map (\<lambda>p. (k, fst p, snd p)) (filter (\<lambda>p. valid_score d p \<or> nan_score d p) ps)"
proof (induction d k ps rule: staged_scores.induct)
  case (1 d k)
  show ?case by simp
next
  case (2 d k criterion_id score rest)
  show ?case
  proof (cases "get_criterion d criterion_id")
    case None
    with 2(1) show ?thesis by (simp add: valid_score_def nan_score_def)
  next
    case (Some criterion)
    show ?thesis
    proof (cases score)
      case NaN
      with Some 2(3) show ?thesis
        by (simp add: valid_score_def nan_score_def float_less_def float_greater_def)
    next
      case (Finite x)
      show ?thesis
      proof (cases "x < real_of_int (cr_scale_min criterion) \<or> x > real_of_int (cr_scale_max criterion)")
        case True
        with Some Finite 2(2) show ?thesis
          by (auto simp: valid_score_def nan_score_def float_less_def float_greater_def)
      next
        case False
        with Some Finite 2(3) show ?thesis
          by (auto simp: valid_score_def nan_score_def float_less_def float_greater_def)
      qed
    qed
  qed
qed

lemma insert_scores_nan:
  "(k, c, NaN) \<in> set staged \<Longrightarrow> insert_scores d staged = Inl IntegrityError"
proof (induction d staged rule: insert_scores.induct)
  case (1 d)
  then show ?case by simp
next
  case (2 d evaluation_id criterion_id score rest)
  then show ?case by (cases score) (auto simp: Let_def)
qed

lemma insert_scores_finite:
  "\<forall>t \<in> set staged. snd (snd t) \<noteq> NaN \<Longrightarrow>
   \<exists>d' new. insert_scores d staged = Inr d' \<and>
     d' = d\<lparr>evaluation_scores := evaluation_scores d @ new\<rparr> \<and>
     map (\<lambda>r. (es_evaluation_id r, es_criterion_id r, Finite (es_score r))) new = staged"
proof (induction d staged rule: insert_scores.induct)
  case (1 d)
  show ?case by simp
next
  case (2 d evaluation_id criterion_id score rest)
  from "2.prems" obtain x where x: "score = Finite x" by (cases score) auto
  define row where "row = \<lparr>es_id = next_id (map es_id (evaluation_scores d)),
    es_evaluation_id = evaluation_id, es_criterion_id = criterion_id, es_score = x,
    es_justification = None\<rparr>"
  define d1 where "d1 = d\<lparr>evaluation_scores := evaluation_scores d @ [row]\<rparr>"
  have "\<forall>t \<in> set rest. snd (snd t) \<noteq> NaN" using "2.prems" by simp
  from 2(1) [OF x row_def this] obtain d' new where rec:
    "insert_scores d1 rest = Inr d'" "d' = d1\<lparr>evaluation_scores := evaluation_scores d1 @ new\<rparr>"
    "map (\<lambda>r. (es_evaluation_id r, es_criterion_id r, Finite (es_score r))) new = rest"
    unfolding d1_def by blast
  have "insert_scores d ((evaluation_id, criterion_id, score) # rest) = Inr d'"
    using rec(1) by (simp add: x d1_def row_def)
  moreover have "d' = d\<lparr>evaluation_scores := evaluation_scores d @ (row # new)\<rparr>"
    using rec(2) by (simp add: d1_def)
  moreover have "map (\<lambda>r. (es_evaluation_id r, es_criterion_id r, Finite (es_score r))) (row # new) =
      (evaluation_id, criterion_id, score) # rest"
    using rec(3) by (simp add: row_def x)
  ultimately show ?case
    by (intro exI [of _ d'] exI [of _ "row # new"]) simp
qed

text \<open>Without quality-check answers and without a NaN score for a stored criterion the
  submission does what is expected of it: it succeeds, completes the evaluation at the
  submission time and adds exactly the rows of the valid pairs.\<close>

lemma submit_evaluation_without_answers:
  assumes pending: "get_evaluation d evaluation_id = Some evaluation"
      "ev_completion_time evaluation = None"
    and no_answers: "answers = None \<or> answers = Some []"
    and no_nan: "\<forall>p \<in> set scores. \<not> nan_score d p"
  shows "\<exists>d' evaluation' new.
           submit_evaluation d now evaluation_id scores overall_rating comments answers =
             Inr ((True, ''Evaluation submitted successfully''), d') \<and>
           get_evaluation d' evaluation_id = Some evaluation' \<and>
           ev_completion_time evaluation' = Some now \<and>
           evaluation_scores d' = evaluation_scores d @ new \<and>
           map (\<lambda>r. (es_evaluation_id r, es_criterion_id r, Finite (es_score r))) new =
             map (\<lambda>p. (evaluation_id, fst p, snd p)) (filter (valid_score d) scores)"
proof -
  define evaluation' where "evaluation' = evaluation\<lparr>ev_completion_time := Some now,
      ev_duration_seconds := Some (int_total_seconds (now - ev_start_time evaluation)),
      ev_overall_rating := Some overall_rating, ev_comments := comments,
      ev_passed_quality_checks := Some True\<rparr>"
  define d1 where "d1 = d\<lparr>evaluations := replace_evaluation evaluation' (evaluations d)\<rparr>"
  have same: "valid_score d1 = valid_score d" "nan_score d1 = nan_score d"
    by (rule ext, simp add: valid_score_def nan_score_def get_criterion_def d1_def)+
  have staged: "staged_scores d1 evaluation_id scores =
      map (\<lambda>p. (evaluation_id, fst p, snd p)) (filter (valid_score d) scores)"
  proof -
    have "filter (\<lambda>p. valid_score d p \<or> nan_score d p) scores = filter (valid_score d) scores"
      using no_nan by (intro filter_cong) auto
    then show ?thesis by (simp add: staged_scores_filter same)
  qed
  have "\<forall>t \<in> set (staged_scores d1 evaluation_id scores). snd (snd t) \<noteq> NaN"
    unfolding staged by (auto simp: valid_score_def split: option.splits pyfloat.splits)
  from insert_scores_finite [OF this, of d1] obtain d' new where ins:
    "insert_scores d1 (staged_scores d1 evaluation_id scores) = Inr d'"
    "d' = d1\<lparr>evaluation_scores := evaluation_scores d1 @ new\<rparr>"
    "map (\<lambda>r. (es_evaluation_id r, es_criterion_id r, Finite (es_score r))) new =
       staged_scores d1 evaluation_id scores"
    by blast
  have run: "submit_evaluation d now evaluation_id scores overall_rating comments answers =
      Inr ((True, ''Evaluation submitted successfully''), d')"
    using pending no_answers ins(1)
    by (auto simp: submit_evaluation_def Let_def d1_def evaluation'_def)
  have key: "ev_id evaluation' = evaluation_id"
    using find_key_eq [of ev_id evaluation_id "evaluations d" evaluation] pending(1)
    by (simp add: evaluation'_def get_evaluation_def)
  have "get_evaluation d' evaluation_id = Some evaluation'"
    using pending(1) key by (simp add: get_evaluation_def ins(2) d1_def get_evaluation_replace)
  moreover have "ev_completion_time evaluation' = Some now"
    by (simp add: evaluation'_def)
  moreover have "evaluation_scores d' = evaluation_scores d @ new"
    by (simp add: ins(2) d1_def)
  ultimately show ?thesis
    using run ins(3) staged by auto
qed

text \<open>With quality-check answers the score rows are added, but the table of
  evaluations is left as it was.\<close>

lemma submit_evaluation_with_answers:
  assumes pending: "get_evaluation d evaluation_id = Some evaluation"
      "ev_completion_time evaluation = None"
    and answers: "answers \<noteq> []"
    and no_nan: "\<forall>p \<in> set scores. \<not> nan_score d p"
  shows "\<exists>d'. submit_evaluation d now evaluation_id scores overall_rating comments (Some answers) =
             Inr ((True, ''Evaluation submitted successfully''), d') \<and>
           evaluations d' = evaluations d \<and>
           get_evaluation d' evaluation_id = Some evaluation"
proof -
  have "filter (\<lambda>p. valid_score d p \<or> nan_score d p) scores = filter (valid_score d) scores"
    using no_nan by (intro filter_cong) auto
  then have staged: "staged_scores d evaluation_id scores =
      map (\<lambda>p. (evaluation_id, fst p, snd p)) (filter (valid_score d) scores)"
    by (simp add: staged_scores_filter)
  have "\<forall>t \<in> set (staged_scores d evaluation_id scores). snd (snd t) \<noteq> NaN"
    unfolding staged by (auto simp: valid_score_def split: option.splits pyfloat.splits)
  from insert_scores_finite [OF this, of d] obtain d' new where ins:
    "insert_scores d (staged_scores d evaluation_id scores) = Inr d'"
    "d' = d\<lparr>evaluation_scores := evaluation_scores d @ new\<rparr>"
    by blast
  have "submit_evaluation d now evaluation_id scores overall_rating comments (Some answers) =
      Inr ((True, ''Evaluation submitted successfully''), d')"
    using pending answers ins(1) by (simp add: submit_evaluation_def Let_def)
  moreover have "evaluations d' = evaluations d" by (simp add: ins(2))
  moreover have "get_evaluation d' evaluation_id = Some evaluation"
    using pending(1) by (simp add: get_evaluation_def ins(2))
  ultimately show ?thesis by blast
qed

text \<open>A NaN score for a stored criterion makes the submission raise.\<close>

lemma submit_evaluation_nan:
  assumes pending: "get_evaluation d evaluation_id = Some evaluation"
      "ev_completion_time evaluation = None"
    and nan: "p \<in> set scores" "nan_score d p"
  shows "submit_evaluation d now evaluation_id scores overall_rating comments answers =
           Inl IntegrityError"
proof -
  have staged: "(evaluation_id, fst p, NaN) \<in> set (staged_scores d' evaluation_id scores)"
    if "criteria d' = criteria d" for d'
  proof -
    have "nan_score d' p" using nan(2) that by (simp add: nan_score_def get_criterion_def)
    then have "p \<in> set (filter (\<lambda>p. valid_score d' p \<or> nan_score d' p) scores)"
      using nan(1) by simp
    then have "(evaluation_id, fst p, snd p) \<in> set (staged_scores d' evaluation_id scores)"
      unfolding staged_scores_filter set_map by (rule imageI)
    moreover have "snd p = NaN" using nan(2) by (simp add: nan_score_def)
    ultimately show ?thesis by (simp only:)
  qed
  show ?thesis
    using pending insert_scores_nan [OF staged]
    by (simp add: submit_evaluation_def Let_def)
qed

text \<open>
  Claim C1. For an existing evaluation that is not yet completed, \<^verbatim>\<open>submit_evaluation\<close>
  is to skip the invalid (criterion, score) pairs, add a row for every valid pair,
  return success and mark the evaluation completed. Submitted with a quality-check
  answer, evaluation 1 of the sample database gets its row for the valid pair and the
  call returns success, but the evaluation is still pending afterwards. Submitted with
  a NaN score for criterion 1, the pair is not skipped and the call raises.
\<close>

theorem submit_evaluation_with_answers_stays_pending:
  "get_evaluation demo_db 1 = Some demo_pending \<and> ev_completion_time demo_pending = None \<and>
   submit_evaluation demo_db 75000000 1 [(1, Finite 3), (2, Finite 9)] 4 None (Some [(1, ''yes'')]) =
     Inr ((True, ''Evaluation submitted successfully''), answered_db) \<and>
   get_evaluation answered_db 1 = Some demo_pending \<and>
   map score_triple (evaluation_scores answered_db) = [(1, 1, 3)] \<and>
   submit_evaluation demo_db 75000000 1 [(1, NaN)] 4 None None = Inl IntegrityError"
proof -
  have pending: "get_evaluation demo_db 1 = Some demo_pending" "ev_completion_time demo_pending = None"
    by (simp_all add: get_evaluation_def demo_db_def demo_pending_def)
  have answered: "submit_evaluation demo_db 75000000 1 [(1, Finite 3), (2, Finite 9)] 4 None
      (Some [(1, ''yes'')]) = Inr ((True, ''Evaluation submitted successfully''), answered_db)"
    by (simp add: submit_evaluation_def get_evaluation_def get_criterion_def float_less_def
        float_greater_def next_id_def answered_db_def demo_db_def demo_pending_def Let_def)
  have still: "get_evaluation answered_db 1 = Some demo_pending"
    by (simp add: get_evaluation_def answered_db_def demo_db_def demo_pending_def)
  have rows: "map score_triple (evaluation_scores answered_db) = [(1, 1, 3)]"
    by (simp add: score_triple_def answered_db_def)
  have raised: "submit_evaluation demo_db 75000000 1 [(1, NaN)] 4 None None = Inl IntegrityError"
    by (simp add: submit_evaluation_def get_evaluation_def get_criterion_def float_less_def
        float_greater_def demo_db_def demo_pending_def Let_def)
  from pending answered still rows raised show ?thesis by blast
qed

section \<open>Starting an evaluation\<close>

lemma find_filter_hd: "find P xs = (case filter P xs of [] \<Rightarrow> None | x # _ \<Rightarrow> Some x)"
  by (induction xs) auto

lemma find_snoc: "find P (xs @ [y]) = (case find P xs of Some x \<Rightarrow> Some x | None \<Rightarrow> if P y then Some y else None)"
  by (induction xs) auto

text \<open>The application keeps at most one Evaluation row per (evaluator, content) pair:
  \<^verbatim>\<open>start_evaluation\<close> preserves it.\<close>

lemma start_evaluation_keeps_pairs_unique:
  assumes "distinct (map (\<lambda>e. (ev_evaluator_id e, ev_content_id e)) (evaluations d))"
  shows "distinct (map (\<lambda>e. (ev_evaluator_id e, ev_content_id e))
           (evaluations (snd (start_evaluation d now user_id content_id))))"
proof (cases "find (\<lambda>e. ev_evaluator_id e = user_id \<and> ev_content_id e = content_id) (evaluations d)")
  case None
  then have "(user_id, content_id) \<notin> (\<lambda>e. (ev_evaluator_id e, ev_content_id e)) ` set (evaluations d)"
    by (auto simp: find_None_iff)
  with assms None show ?thesis
    by (simp add: start_evaluation_def Let_def)
next
  case (Some existing)
  with assms show ?thesis
    by (simp add: start_evaluation_def)
qed

lemma pairs_unique_pair_rows:
  assumes "distinct (map (\<lambda>e. (ev_evaluator_id e, ev_content_id e)) (evaluations d))"
  shows "length (pair_rows d user_id content_id) \<le> 1"
proof -
  have "distinct (map (\<lambda>e. (ev_evaluator_id e, ev_content_id e)) (pair_rows d user_id content_id))"
    using assms unfolding pair_rows_def by (rule distinct_map_filter)
  moreover have "\<forall>e \<in> set (pair_rows d user_id content_id).
      (ev_evaluator_id e, ev_content_id e) = (user_id, content_id)"
    by (simp add: pair_rows_def)
  ultimately show ?thesis
    by (cases "pair_rows d user_id content_id" rule: remdups_adj.cases) auto
qed

text \<open>
  Claim C3. For an existing user and an existing content item, two calls of
  \<^verbatim>\<open>start_evaluation\<close> with the same (user, content) pair return the same evaluation
  id; the second call leaves the database as the first call left it (no new row), and
  the pair then has exactly one Evaluation row, the one with the returned id. The pair
  has at most one row before the calls, as the application maintains.
\<close>

theorem start_evaluation_idempotent:
  assumes user: "get_user d user_id \<noteq> None"
    and content: "get_content d content_id \<noteq> None"
    and unique: "length (pair_rows d user_id content_id) \<le> 1"
  shows "\<exists>k e. fst (start_evaluation d now1 user_id content_id) = Some k \<and>
           fst (start_evaluation (snd (start_evaluation d now1 user_id content_id)) now2 user_id content_id) = Some k \<and>
           snd (start_evaluation (snd (start_evaluation d now1 user_id content_id)) now2 user_id content_id) =
             snd (start_evaluation d now1 user_id content_id) \<and>
           pair_rows (snd (start_evaluation d now1 user_id content_id)) user_id content_id = [e] \<and>
           ev_id e = k"
proof -
  let ?P = "\<lambda>e. ev_evaluator_id e = user_id \<and> ev_content_id e = content_id"
  show ?thesis
  proof (cases "find ?P (evaluations d)")
    case (Some existing)
    have first: "start_evaluation d now1 user_id content_id = (Some (ev_id existing), d)"
      using user content Some by (simp add: start_evaluation_def)
    have second: "start_evaluation d now2 user_id content_id = (Some (ev_id existing), d)"
      using user content Some by (simp add: start_evaluation_def)
    from Some obtain rest where "filter ?P (evaluations d) = existing # rest"
      by (auto simp: find_filter_hd split: list.splits)
    with unique have "pair_rows d user_id content_id = [existing]"
      by (simp add: pair_rows_def)
    with first second show ?thesis by simp
  next
    case None
    define evaluation where "evaluation = \<lparr>ev_id = next_id (map ev_id (evaluations d)),
       ev_evaluator_id = user_id, ev_content_id = content_id, ev_start_time = now1,
       ev_completion_time = None, ev_duration_seconds = None, ev_overall_rating = None,
       ev_comments = None, ev_passed_quality_checks = None\<rparr>"
    define d1 where "d1 = d\<lparr>evaluations := evaluations d @ [evaluation]\<rparr>"
    have first: "start_evaluation d now1 user_id content_id = (Some (ev_id evaluation), d1)"
      using user content None by (simp add: start_evaluation_def evaluation_def d1_def Let_def)
    have hit: "?P evaluation" by (simp add: evaluation_def)
    have found: "find ?P (evaluations d1) = Some evaluation"
      using None hit by (simp add: d1_def find_snoc)
    have "get_user d1 user_id \<noteq> None" "get_content d1 content_id \<noteq> None"
      using user content by (simp_all add: d1_def get_user_def get_content_def)
    then have second: "start_evaluation d1 now2 user_id content_id = (Some (ev_id evaluation), d1)"
      using found by (simp add: start_evaluation_def)
    from None have "filter ?P (evaluations d) = []"
      by (auto simp: find_filter_hd split: list.splits)
    then have "pair_rows d1 user_id content_id = [evaluation]"
      using hit by (simp add: pair_rows_def d1_def)
    with first second show ?thesis by simp
  qed
qed

theorem start_evaluation_idempotent_witness:
  "get_user demo_db 1 \<noteq> None \<and> get_content demo_db 2 \<noteq> None \<and>
   length (pair_rows demo_db 1 2) \<le> 1 \<and>
   fst (start_evaluation demo_db 50 1 2) = Some 3 \<and>
   fst (start_evaluation (snd (start_evaluation demo_db 50 1 2)) 60 1 2) = Some 3 \<and>
   length (evaluations (snd (start_evaluation (snd (start_evaluation demo_db 50 1 2)) 60 1 2))) = 3"
proof -
  have user: "get_user demo_db 1 \<noteq> None"
    by (simp add: get_user_def demo_db_def)
  have content: "get_content demo_db 2 \<noteq> None"
    by (simp add: get_content_def demo_db_def)
  have unique: "length (pair_rows demo_db 1 2) \<le> 1"
    by (simp add: pair_rows_def demo_db_def demo_pending_def demo_completed_def)
  have first: "fst (start_evaluation demo_db 50 1 2) = Some 3"
    by (simp add: start_evaluation_def get_user_def get_content_def demo_db_def demo_pending_def
        demo_completed_def next_id_def)
  have rows: "length (evaluations (snd (start_evaluation demo_db 50 1 2))) = 3"
    by (simp add: start_evaluation_def get_user_def get_content_def demo_db_def demo_pending_def
        demo_completed_def next_id_def)
  show ?thesis
    using start_evaluation_idempotent [OF user content unique, of 50 60] user content unique first rows
    by auto
qed

section \<open>Validating quality-check answers\<close>

lemma count_correct_filter:
  "count_correct d answers n = n + length (filter (answer_correct d) answers)"
  by (induction d answers n rule: count_correct.induct)
     (auto simp: answer_correct_def split: option.splits)

text \<open>
  Claim C6. \<^verbatim>\<open>validate_quality_checks\<close> returns true exactly when the answer set is
  not empty and the fraction of the supplied answers that equal the stored correct
  answer up to letter case is at least 0.7; on the empty answer set it returns false.
  With 10 answers of which 7 are correct it passes, with 6 correct it fails.
\<close>

theorem validate_quality_checks_threshold:
  "validate_quality_checks d answers = (answers \<noteq> [] \<and> correct_fraction d answers \<ge> 7 / 10) \<and>
   validate_quality_checks d [] = False \<and>
   (length answers = 10 \<and> length (filter (answer_correct d) answers) = 7 \<longrightarrow>
      validate_quality_checks d answers = True) \<and>
   (length answers = 10 \<and> length (filter (answer_correct d) answers) = 6 \<longrightarrow>
      validate_quality_checks d answers = False)"
proof -
  have main: "validate_quality_checks d answers = (answers \<noteq> [] \<and> correct_fraction d answers \<ge> 7 / 10)"
    by (simp add: validate_quality_checks_def correct_fraction_def count_correct_filter Let_def)
  have empty: "validate_quality_checks d [] = False"
    by (simp add: validate_quality_checks_def)
  have seven: "length answers = 10 \<and> length (filter (answer_correct d) answers) = 7 \<longrightarrow>
      validate_quality_checks d answers = True"
    unfolding main by (auto simp: correct_fraction_def)
  have six: "length answers = 10 \<and> length (filter (answer_correct d) answers) = 6 \<longrightarrow>
      validate_quality_checks d answers = False"
    unfolding main by (auto simp: correct_fraction_def)
  from main empty seven six show ?thesis by blast
qed

lemma quiz_lower: "lower ''Yes'' = ''yes''" "lower ''YES'' = ''yes''" "lower ''yes'' = ''yes''"
  "lower ''no'' = ''no''" "lower ''maybe'' = ''maybe''"
  by code_simp+

lemma seven_right_count: "length (filter (answer_correct quiz_db) seven_right) = 7"
  by (simp add: answer_correct_def get_question_def quiz_db_def quiz_question_def seven_right_def quiz_lower)

lemma six_right_count: "length (filter (answer_correct quiz_db) six_right) = 6"
  by (simp add: answer_correct_def get_question_def quiz_db_def quiz_question_def six_right_def quiz_lower)

theorem validate_quality_checks_threshold_witness:
  "length seven_right = 10 \<and> length (filter (answer_correct quiz_db) seven_right) = 7 \<and>
   validate_quality_checks quiz_db seven_right = True \<and>
   length six_right = 10 \<and> length (filter (answer_correct quiz_db) six_right) = 6 \<and>
   validate_quality_checks quiz_db six_right = False"
proof -
  have ten: "length seven_right = 10" "length six_right = 10"
    by (simp_all add: seven_right_def six_right_def)
  have pass: "validate_quality_checks quiz_db seven_right = True"
    using validate_quality_checks_threshold [of quiz_db seven_right] ten(1) seven_right_count
    by blast
  have fail: "validate_quality_checks quiz_db six_right = False"
    using validate_quality_checks_threshold [of quiz_db six_right] ten(2) six_right_count
    by blast
  from ten seven_right_count six_right_count pass fail show ?thesis by blast
qed

text \<open>
  Claim C10. Every supplied answer counts in the denominator, also an answer whose
  question id matches no stored question, and such an answer never counts as correct.
  So when every answer to a stored question is correct, the check passes exactly when at
  most 30% of the answers name an unknown question: with more than 30% unknown ids it
  returns false although no stored question was answered wrongly.
\<close>

theorem validate_quality_checks_unknown_questions:
  assumes "answers \<noteq> []"
    and "\<forall>p \<in> set answers. \<not> unknown_question d p \<longrightarrow> answer_correct d p"
  shows "validate_quality_checks d answers =
           (10 * length (filter (unknown_question d) answers) \<le> 3 * length answers)"
proof -
  have "filter (answer_correct d) answers = filter (\<lambda>p. \<not> unknown_question d p) answers"
    using assms(2)
    by (intro filter_cong) (auto simp: answer_correct_def unknown_question_def split: option.splits)
  then have count: "length (filter (answer_correct d) answers) + length (filter (unknown_question d) answers) =
      length answers"
    using sum_length_filter_compl [of "unknown_question d" answers] by simp
  have pos: "0 < real (length answers)" using assms(1) by simp
  have "validate_quality_checks d answers =
      (7 / 10 \<le> real (length (filter (answer_correct d) answers)) / real (length answers))"
    using assms(1) by (simp add: validate_quality_checks_def count_correct_filter Let_def)
  also have "\<dots> = (7 * real (length answers) \<le> 10 * real (length (filter (answer_correct d) answers)))"
    using pos by (simp add: field_simps)
  also have "\<dots> = (7 * length answers \<le> 10 * length (filter (answer_correct d) answers))"
    by (metis of_nat_le_iff of_nat_mult of_nat_numeral)
  also have "\<dots> = (10 * length (filter (unknown_question d) answers) \<le> 3 * length answers)"
    using count by arith
  finally show ?thesis .
qed

theorem validate_quality_checks_unknown_questions_witness:
  "one_unknown \<noteq> [] \<and>
   length (filter (unknown_question quiz_db) one_unknown) = 1 \<and>
   length (filter (answer_correct quiz_db) one_unknown) = 2 \<and>
   validate_quality_checks quiz_db one_unknown = False"
proof -
  have nonempty: "one_unknown \<noteq> []" by (simp add: one_unknown_def)
  have right: "\<forall>p \<in> set one_unknown. \<not> unknown_question quiz_db p \<longrightarrow> answer_correct quiz_db p"
    by (simp add: one_unknown_def unknown_question_def answer_correct_def get_question_def quiz_db_def
        quiz_question_def quiz_lower)
  have unknown: "length (filter (unknown_question quiz_db) one_unknown) = 1"
    by (simp add: one_unknown_def unknown_question_def get_question_def quiz_db_def quiz_question_def)
  have correct: "length (filter (answer_correct quiz_db) one_unknown) = 2"
    by (simp add: one_unknown_def answer_correct_def get_question_def quiz_db_def quiz_question_def quiz_lower)
  have total: "length one_unknown = 3" by (simp add: one_unknown_def)
  show ?thesis
    using validate_quality_checks_unknown_questions [OF nonempty right] nonempty unknown correct total
    by simp
qed

section \<open>Timing plausibility\<close>

text \<open>
  Claim C8. For a completed evaluation with a recorded duration whose content exists,
  \<^verbatim>\<open>check_evaluation_time\<close> returns false when the duration is below 60 seconds;
  otherwise it returns true exactly when the duration is at least half of the expected
  time max(60, text length / 10). For a text of 1000 characters a 40-second evaluation
  fails and a 60-second evaluation passes.
\<close>

theorem check_evaluation_time_plausible:
  assumes "get_evaluation d evaluation_id = Some evaluation"
    and "ev_completion_time evaluation \<noteq> None"
    and "ev_duration_seconds evaluation = Some duration"
    and "get_content d (ev_content_id evaluation) = Some content"
  shows "(duration < 60 \<longrightarrow> check_evaluation_time d evaluation_id = Inr False) \<and>
         (60 \<le> duration \<longrightarrow>
            check_evaluation_time d evaluation_id =
              Inr (expected_time content * (1 / 2) \<le> real_of_int duration)) \<and>
         (length (c_text content) = 1000 \<and> duration = 40 \<longrightarrow>
            check_evaluation_time d evaluation_id = Inr False) \<and>
         (length (c_text content) = 1000 \<and> duration = 60 \<longrightarrow>
            check_evaluation_time d evaluation_id = Inr True)"
proof -
  have short: "duration < 60 \<longrightarrow> check_evaluation_time d evaluation_id = Inr False"
    using assms by (simp add: check_evaluation_time_def MIN_EVALUATION_TIME_SECONDS_def)
  have long: "60 \<le> duration \<longrightarrow>
      check_evaluation_time d evaluation_id =
        Inr (expected_time content * (1 / 2) \<le> real_of_int duration)"
    using assms
    by (auto simp: check_evaluation_time_def MIN_EVALUATION_TIME_SECONDS_def expected_time_def Let_def)
  have forty: "length (c_text content) = 1000 \<and> duration = 40 \<longrightarrow>
      check_evaluation_time d evaluation_id = Inr False"
    using short by simp
  have sixty: "length (c_text content) = 1000 \<and> duration = 60 \<longrightarrow>
      check_evaluation_time d evaluation_id = Inr True"
    using long by (simp add: expected_time_def)
  from short long forty sixty show ?thesis by blast
qed

theorem check_evaluation_time_plausible_witness:
  "get_evaluation timing_db 1 = Some timing_quick \<and> ev_completion_time timing_quick \<noteq> None \<and>
   ev_duration_seconds timing_quick = Some 40 \<and>
   get_content timing_db (ev_content_id timing_quick) = Some timing_content \<and>
   length (c_text timing_content) = 1000 \<and>
   check_evaluation_time timing_db 1 = Inr False \<and>
   get_evaluation timing_db 2 = Some timing_steady \<and> ev_completion_time timing_steady \<noteq> None \<and>
   ev_duration_seconds timing_steady = Some 60 \<and>
   get_content timing_db (ev_content_id timing_steady) = Some timing_content \<and>
   check_evaluation_time timing_db 2 = Inr True"
proof -
  have quick: "get_evaluation timing_db 1 = Some timing_quick"
    "ev_completion_time timing_quick \<noteq> None" "ev_duration_seconds timing_quick = Some 40"
    "get_content timing_db (ev_content_id timing_quick) = Some timing_content"
    by (simp_all add: get_evaluation_def get_content_def timing_db_def timing_quick_def
        timing_steady_def timing_content_def)
  have steady: "get_evaluation timing_db 2 = Some timing_steady"
    "ev_completion_time timing_steady \<noteq> None" "ev_duration_seconds timing_steady = Some 60"
    "get_content timing_db (ev_content_id timing_steady) = Some timing_content"
    by (simp_all add: get_evaluation_def get_content_def timing_db_def timing_quick_def
        timing_steady_def timing_content_def)
  have len: "length (c_text timing_content) = 1000"
    by (simp add: timing_content_def)
  have fails: "check_evaluation_time timing_db 1 = Inr False"
    using check_evaluation_time_plausible [OF quick] len by blast
  have passes: "check_evaluation_time timing_db 2 = Inr True"
    using check_evaluation_time_plausible [OF steady] len by blast
  from quick steady len fails passes show ?thesis by blast
qed

section \<open>Flagging low-quality evaluations\<close>

lemma flag_loop_append:
  "flag_loop d es acc = acc @ flag_loop d es []"
proof (induction es arbitrary: acc)
  case Nil
  show ?case by simp
next
  case (Cons e es)
  show ?case
  proof (cases "ev_completion_time e")
    case None
    then show ?thesis using Cons.IH [of acc] by simp
  next
    case (Some t)
    show ?thesis
    proof (cases "evaluation_flags d e = []")
      case True
      with Some show ?thesis using Cons.IH [of acc] by simp
    next
      case False
      have "flag_loop d (e # es) acc = flag_loop d es (acc @ [flag_record d e t])"
        using Some False by (simp add: flag_record_def Let_def)
      also have "\<dots> = acc @ [flag_record d e t] @ flag_loop d es []"
        using Cons.IH [of "acc @ [flag_record d e t]"] by simp
      also have "[flag_record d e t] @ flag_loop d es [] = flag_loop d es [flag_record d e t]"
        using Cons.IH [of "[flag_record d e t]"] by simp
      also have "flag_loop d es [flag_record d e t] = flag_loop d (e # es) []"
        using Some False by (simp add: flag_record_def Let_def)
      finally show ?thesis .
    qed
  qed
qed

lemma flag_loop_step:
  "flag_loop d (e # es) [] =
     (case ev_completion_time e of
        None \<Rightarrow> flag_loop d es []
      | Some t \<Rightarrow> if evaluation_flags d e \<noteq> [] then flag_record d e t # flag_loop d es []
                  else flag_loop d es [])"
  using flag_loop_append [of d es "[flag_record d e t]" for t]
  by (simp add: flag_record_def Let_def split: option.splits)

text \<open>One record per completed evaluation that collected a flag, in table order.\<close>

lemma flag_low_quality_evaluations_ids:
  "map fl_evaluation_id (flag_low_quality_evaluations d) =
   map ev_id (filter (\<lambda>e. ev_completion_time e \<noteq> None \<and> evaluation_flags d e \<noteq> []) (evaluations d))"
proof -
  have "map fl_evaluation_id (flag_loop d es []) =
      map ev_id (filter (\<lambda>e. ev_completion_time e \<noteq> None \<and> evaluation_flags d e \<noteq> []) es)" for es
  proof (induction es)
    case Nil
    show ?case by simp
  next
    case (Cons e es)
    then show ?case
      unfolding flag_loop_step by (auto simp: flag_record_def split: option.splits)
  qed
  then show ?thesis by (simp add: flag_low_quality_evaluations_def)
qed

text \<open>The cases in which an evaluation does collect a flag.\<close>

lemma evaluation_flags_failed_checks:
  "ev_passed_quality_checks e = Some False \<Longrightarrow> evaluation_flags d e \<noteq> []"
  unfolding evaluation_flags_def Let_def by simp

lemma evaluation_flags_fast_nonzero:
  "ev_duration_seconds e = Some duration \<Longrightarrow> duration \<noteq> 0 \<Longrightarrow> duration < 60 \<Longrightarrow>
   evaluation_flags d e \<noteq> []"
  unfolding evaluation_flags_def Let_def MIN_EVALUATION_TIME_SECONDS_def by simp

lemma evaluation_flags_straight_line:
  assumes "filter (\<lambda>s. es_evaluation_id s = ev_id e) (evaluation_scores d) = first # rest"
    and "rest \<noteq> []"
    and "\<forall>s \<in> set rest. es_score s = es_score first"
  shows "evaluation_flags d e \<noteq> []"
proof -
  have "2 \<le> length (first # rest)" using assms(2) by (cases rest) simp_all
  moreover have "list_all (\<lambda>s. es_score s = es_score first) (first # rest)"
    using assms(3) by (simp add: list_all_iff)
  ultimately show ?thesis
    unfolding evaluation_flags_def Let_def assms(1) by simp
qed

text \<open>
  Claim C5. \<^verbatim>\<open>flag_low_quality_evaluations\<close> is to return a record with a
  fast-completion flag for every completed evaluation whose duration is below 60
  seconds. An evaluation that is started and submitted within the same second is
  completed with a duration of 0 seconds; with passed quality checks and no scores it
  gets no record, since the duration test treats 0 as absent.
\<close>

theorem flag_low_quality_evaluations_zero_duration:
  "snd (start_evaluation demo_db 5000000 1 2) = started_db \<and>
   submit_evaluation started_db 5400000 3 [] 3 None None =
     Inr ((True, ''Evaluation submitted successfully''), instant_db) \<and>
   get_evaluation instant_db 3 = Some instant_evaluation \<and>
   ev_completion_time instant_evaluation = Some 5400000 \<and>
   ev_duration_seconds instant_evaluation = Some 0 \<and>
   flag_low_quality_evaluations instant_db = []"
proof -
  have started: "snd (start_evaluation demo_db 5000000 1 2) = started_db"
    by (simp add: start_evaluation_def get_user_def get_content_def demo_db_def demo_pending_def
        demo_completed_def next_id_def started_db_def)
  have submitted: "submit_evaluation started_db 5400000 3 [] 3 None None =
      Inr ((True, ''Evaluation submitted successfully''), instant_db)"
    by (simp add: submit_evaluation_def get_evaluation_def int_total_seconds_def started_db_def
        instant_db_def instant_evaluation_def demo_db_def demo_pending_def demo_completed_def)
  have row: "get_evaluation instant_db 3 = Some instant_evaluation"
    by (simp add: get_evaluation_def instant_db_def instant_evaluation_def demo_db_def
        demo_pending_def demo_completed_def)
  have none: "flag_low_quality_evaluations instant_db = []"
    by (simp add: flag_low_quality_evaluations_def evaluation_flags_def instant_db_def
        instant_evaluation_def demo_db_def demo_pending_def demo_completed_def
        MIN_EVALUATION_TIME_SECONDS_def Let_def)
  from started submitted row none show ?thesis
    by (simp add: instant_evaluation_def)
qed

section \<open>Improvement suggestions\<close>

text \<open>
  Claim C2. Every flagged gap is to yield a suggestion with a priority and a text.
  The targets that \<^verbatim>\<open>identify_improvement_areas\<close> passes are floats, and for a float
  target \<^verbatim>\<open>_create_improvement_suggestion\<close> raises \<^verbatim>\<open>UnboundLocalError\<close> before it
  computes a priority or a text; the loop over the flagged criterion gaps therefore
  ends in that exception at its first gap, and no suggestion is produced or persisted.
\<close>

theorem create_improvement_suggestion_float_target_raises:
  "create_improvement_suggestion fmt2 model_name domain criterion current_score (Float_val target) =
     Inl UnboundLocalError \<and>
   general_suggestions fmt2 model_name (criterion_gap # rest) [] = Inl UnboundLocalError"
  by (simp add: create_improvement_suggestion_def)

section \<open>Generated passwords\<close>

lemma shuffle_from_mset:
  "i < length x \<Longrightarrow> mset (shuffle_from rng k i x) = mset x"
proof (induction i arbitrary: k x)
  case 0
  show ?case by simp
next
  case (Suc i)
  define j where "j = rng k mod (Suc i + 1)"
  have "j < Suc (Suc i)" by (simp add: j_def)
  with Suc.prems have j: "j < length x" by linarith
  have swap: "mset (x[Suc i := x ! j, j := x ! Suc i]) = mset x"
    using mset_swap [of j x "Suc i"] j Suc.prems by simp
  have "mset (shuffle_from rng (k + 1) i (x[Suc i := x ! j, j := x ! Suc i])) =
      mset (x[Suc i := x ! j, j := x ! Suc i])"
    using Suc.prems by (intro Suc.IH) simp
  with swap show ?case by (simp add: j_def Let_def)
qed

lemma shuffle_mset: "mset (shuffle rng k x) = mset x"
proof (cases x)
  case Nil
  then show ?thesis by (simp add: shuffle_def)
next
  case (Cons a as)
  then show ?thesis by (simp add: shuffle_def shuffle_from_mset)
qed

lemma shuffle_set: "set (shuffle rng k x) = set x"
  using shuffle_mset [of rng k x] by (metis set_mset_mset)

lemma shuffle_length: "length (shuffle rng k x) = length x"
  using shuffle_mset [of rng k x] by (metis size_mset)

lemma choice_member: "seq \<noteq> [] \<Longrightarrow> choice rng k seq \<in> set seq"
  by (simp add: choice_def)

text \<open>
  Claim C9, amended. \<^verbatim>\<open>generate_password\<close> returns a string of the requested length
  when that length is at least 4, and a string of length 4 for every smaller request;
  in both cases the string contains a lowercase letter, an uppercase letter, a digit and
  a symbol of the punctuation set.
\<close>

theorem generate_password_classes:
  "length (generate_password rng pw_length) = (if 4 \<le> pw_length then nat pw_length else 4) \<and>
   (\<exists>c \<in> set (generate_password rng pw_length). c \<in> set ascii_lowercase) \<and>
   (\<exists>c \<in> set (generate_password rng pw_length). c \<in> set ascii_uppercase) \<and>
   (\<exists>c \<in> set (generate_password rng pw_length). c \<in> set digits) \<and>
   (\<exists>c \<in> set (generate_password rng pw_length). c \<in> set special)"
proof -
  define all_chars where "all_chars = ascii_lowercase @ ascii_uppercase @ digits @ special"
  define extra where "extra = nat (pw_length - 4)"
  define password where "password =
    [choice rng 0 ascii_lowercase, choice rng 1 ascii_uppercase, choice rng 2 digits,
     choice rng 3 special] @ map (\<lambda>i. choice rng (4 + i) all_chars) [0..<extra]"
  have run: "generate_password rng pw_length = shuffle rng (4 + extra) password"
    by (simp add: generate_password_def Let_def password_def extra_def all_chars_def)
  have len: "length (generate_password rng pw_length) = 4 + extra"
    by (simp add: run shuffle_length password_def)
  have members: "set (generate_password rng pw_length) = set password"
    by (simp add: run shuffle_set)
  have lo: "choice rng 0 ascii_lowercase \<in> set ascii_lowercase"
    by (rule choice_member) (simp add: ascii_lowercase_def)
  have up: "choice rng 1 ascii_uppercase \<in> set ascii_uppercase"
    by (rule choice_member) (simp add: ascii_uppercase_def)
  have di: "choice rng 2 digits \<in> set digits"
    by (rule choice_member) (simp add: digits_def)
  have sp: "choice rng 3 special \<in> set special"
    by (rule choice_member) (simp add: special_def)
  have "4 + extra = (if 4 \<le> pw_length then nat pw_length else 4)"
    unfolding extra_def by auto
  moreover have "choice rng 0 ascii_lowercase \<in> set password"
    "choice rng 1 ascii_uppercase \<in> set password"
    "choice rng 2 digits \<in> set password"
    "choice rng 3 special \<in> set password"
    by (simp_all add: password_def)
  ultimately show ?thesis
    using len members lo up di sp by metis
qed

theorem generate_password_classes_witness:
  "length (generate_password stride_rng 12) = 12 \<and> length (generate_password stride_rng 3) = 4"
  using generate_password_classes [of stride_rng 12] generate_password_classes [of stride_rng 3]
  by simp

text \<open>A request for 2 characters is answered with 4.\<close>

theorem generate_password_short_request:
  "generate_password zero_rng 2 = ''A0!a'' \<and> length (generate_password zero_rng 2) \<noteq> 2"
  by code_simp

end
